theory Spec2Isabelle
  imports Main "HOL-Library.Sublist"
begin

section \<open>Data model\<close>

text \<open>
  A note, as declared in the local-storage variant of \<^verbatim>\<open>NotesApp.svelte\<close>:
  \<^verbatim>\<open>type Note = { id: string; title: string; content: string; created: number; updated: number }\<close>.
  The field \<^verbatim>\<open>id\<close> is called \<open>note_id\<close> here, since \<open>id\<close> is the identity function of HOL.
  The record is polymorphic in the type of its timestamps: the local-storage variant stores
  epoch milliseconds (the result of \<^verbatim>\<open>Date.now()\<close>, modelled as \<open>nat\<close>), the adapter-backed
  variant stores ISO strings (the result of \<^verbatim>\<open>toISOString()\<close>).

  Modelled from the spec: the type \<^verbatim>\<open>Note\<close> of \<^verbatim>\<open>$lib/supabaseClient\<close>, which the adapter-backed
  variant imports and which is not among the sources. The spec gives a note the fields
  \<^verbatim>\<open>id\<close>, \<^verbatim>\<open>title\<close> (display string), \<^verbatim>\<open>content\<close> (free-form text), \<^verbatim>\<open>created\<close> and \<^verbatim>\<open>updated\<close>,
  so both variants share this record.

  A string of the program is modelled by the bytes of its UTF-8 encoding (\<open>string\<close>). For
  well-formed text, two strings are equal, and one occurs in the other, exactly when this
  holds of the UTF-16 code units that the language compares.
\<close>

record 't Note =
  note_id :: string
  title :: string
  content :: string
  created :: 't
  updated :: 't

text \<open>
  \<^verbatim>\<open>Partial<Note>\<close>: every field may be absent (\<open>None\<close>).
\<close>

record 't partial_note =
  p_note_id :: "string option"
  p_title :: "string option"
  p_content :: "string option"
  p_created :: "'t option"
  p_updated :: "'t option"

text \<open>
  The object spread \<^verbatim>\<open>{ ...n, ...p }\<close>: a field present in \<open>p\<close> replaces the field of \<open>n\<close>.
\<close>

definition spread :: "'t Note \<Rightarrow> 't partial_note \<Rightarrow> 't Note" where
  "spread n p =
     \<lparr> note_id = (case p_note_id p of None \<Rightarrow> note_id n | Some v \<Rightarrow> v),
       title = (case p_title p of None \<Rightarrow> title n | Some v \<Rightarrow> v),
       content = (case p_content p of None \<Rightarrow> content n | Some v \<Rightarrow> v),
       created = (case p_created p of None \<Rightarrow> created n | Some v \<Rightarrow> v),
       updated = (case p_updated p of None \<Rightarrow> updated n | Some v \<Rightarrow> v) \<rparr>"

text \<open>A complete note seen as a \<^verbatim>\<open>Partial<Note>\<close> with every field present.\<close>

definition all_fields :: "'t Note \<Rightarrow> 't partial_note" where
  "all_fields r =
     \<lparr> p_note_id = Some (note_id r), p_title = Some (title r), p_content = Some (content r),
       p_created = Some (created r), p_updated = Some (updated r) \<rparr>"

text \<open>
  The component state shared by both variants:
  \<^verbatim>\<open>let notes: Note[] = []; let selectedNoteId: string | null = null;
  let editing: boolean = false; let searchTerm: string = '';\<close>
  The list is called \<open>notes_list\<close> here (\<open>notes\<close> is a keyword of Isabelle).
\<close>

record 't store =
  notes_list :: "'t Note list"
  selectedNoteId :: "string option"
  editing :: bool
  searchTerm :: string

text \<open>
  The adapter-backed variant adds \<^verbatim>\<open>let loading: boolean = false; let error: string | null = null;\<close>.
\<close>

record astore = "string store" +
  loading :: bool
  error :: "string option"

text \<open>
  The local-storage variant has no further component state; the item \<^verbatim>\<open>'notes'\<close> of
  \<^verbatim>\<open>localStorage\<close> is carried along as \<open>stored\<close>. \<^verbatim>\<open>JSON.stringify\<close> followed by \<^verbatim>\<open>JSON.parse\<close>
  is the identity on arrays of such records, so the item is modelled by the list it encodes,
  and \<open>None\<close> is the absent item (\<^verbatim>\<open>getItem\<close> returning \<^verbatim>\<open>null\<close>).
\<close>

record lstore = "nat store" +
  stored :: "nat Note list option"

definition empty_astore :: astore where
  "empty_astore = \<lparr> notes_list = [], selectedNoteId = None, editing = False, searchTerm = [],
     loading = False, error = None \<rparr>"

definition empty_lstore :: lstore where
  "empty_lstore = \<lparr> notes_list = [], selectedNoteId = None, editing = False, searchTerm = [],
     stored = None \<rparr>"

section \<open>Derived views (both variants)\<close>

text \<open>
  \<^verbatim>\<open>String.prototype.toLowerCase\<close> is a built-in of the language, not code of the component. It
  converts by the default case conversion of Unicode, which covers every cased letter, may
  change the length of a string and depends on the context of a letter (a capital sigma at the
  end of a word becomes the final small sigma). It is a parameter of the model: the functions
  that call it take it as their first argument, named \<open>toLowerCase\<close>.

  On ASCII text the built-in replaces each of the letters \<^verbatim>\<open>A\<close> to \<^verbatim>\<open>Z\<close> by its small letter and
  keeps every other character. \<open>ascii_lower\<close> is that replacement on one character,
  \<open>is_ascii\<close> holds of the strings whose bytes are below 128, and \<open>lowers_ascii\<close> says of a
  function that it converts every ASCII string in this way.
\<close>

definition ascii_lower :: "char \<Rightarrow> char" where
  "ascii_lower c =
     (case map_of (zip ''ABCDEFGHIJKLMNOPQRSTUVWXYZ'' ''abcdefghijklmnopqrstuvwxyz'') c of
        None \<Rightarrow> c
      | Some l \<Rightarrow> l)"

definition is_ascii :: "string \<Rightarrow> bool" where
  "is_ascii x = list_all (\<lambda>c. \<not> digit7 c) x"

definition lowers_ascii :: "(string \<Rightarrow> string) \<Rightarrow> bool" where
  "lowers_ascii toLowerCase = (\<forall>x. is_ascii x \<longrightarrow> toLowerCase x = map ascii_lower x)"

text \<open>
  \<^verbatim>\<open>String.prototype.includes\<close>: does \<open>t\<close> occur in \<open>s\<close> at some position?
  (\<open>includes\<close> is a keyword of Isabelle, hence the suffix.)
\<close>

fun includes_str :: "string \<Rightarrow> string \<Rightarrow> bool" where
  "includes_str [] t = (t = [])"
| "includes_str (c # cs) t = (prefix t (c # cs) \<or> includes_str cs t)"

text \<open>
  \<^verbatim>\<open>$: filteredNotes = searchTerm ? notes.filter((n) =>
       n.title.toLowerCase().includes(searchTerm.toLowerCase()) ||
       n.content.toLowerCase().includes(searchTerm.toLowerCase())) : notes;\<close>
  The empty string is the only falsy string. The adapter-backed variant writes
  \<^verbatim>\<open>n.title?.toLowerCase()\<close>; on a string the optional chaining does nothing.
\<close>

definition filteredNotes :: "(string \<Rightarrow> string) \<Rightarrow> ('t, 'm) store_scheme \<Rightarrow> 't Note list" where
  "filteredNotes toLowerCase s =
     (if searchTerm s \<noteq> []
      then filter (\<lambda>n. includes_str (toLowerCase (title n)) (toLowerCase (searchTerm s))
                     \<or> includes_str (toLowerCase (content n)) (toLowerCase (searchTerm s)))
             (notes_list s)
      else notes_list s)"

text \<open>
  \<^verbatim>\<open>$: selectedNote = notes.find((n) => n.id === selectedNoteId) ?? null;\<close>
  No id is \<^verbatim>\<open>null\<close>, so nothing is found when nothing is selected.
\<close>

definition selectedNote :: "('t, 'm) store_scheme \<Rightarrow> 't Note option" where
  "selectedNote s =
     (case selectedNoteId s of
        None \<Rightarrow> None
      | Some i \<Rightarrow> find (\<lambda>n. note_id n = i) (notes_list s))"

text \<open>The search box is bound to the variable: \<^verbatim>\<open>bind:value={searchTerm}\<close>.\<close>

definition setSearchTerm :: "string \<Rightarrow> ('t, 'm) store_scheme \<Rightarrow> ('t, 'm) store_scheme" where
  "setSearchTerm t s = s\<lparr> searchTerm := t \<rparr>"

definition selectNote :: "string \<Rightarrow> ('t, 'm) store_scheme \<Rightarrow> ('t, 'm) store_scheme" where
  "selectNote i s = s\<lparr> selectedNoteId := Some i, editing := False \<rparr>"

definition startEditing :: "('t, 'm) store_scheme \<Rightarrow> ('t, 'm) store_scheme" where
  "startEditing s = s\<lparr> editing := True \<rparr>"

definition stopEditing :: "('t, 'm) store_scheme \<Rightarrow> ('t, 'm) store_scheme" where
  "stopEditing s = s\<lparr> editing := False \<rparr>"

section \<open>The adapter-backed variant\<close>

text \<open>
  What a \<^verbatim>\<open>catch (e: unknown)\<close> block can receive: an instance of \<^verbatim>\<open>Error\<close> with its message,
  or any other thrown value. Every handler of the component has the shape
  \<^verbatim>\<open>if (e instanceof Error) error = e.message; else error = '<fallback>';\<close>
\<close>

datatype exn = Error string | Thrown

definition catch_message :: "exn \<Rightarrow> string \<Rightarrow> string" where
  "catch_message e fallback = (case e of Error m \<Rightarrow> m | Thrown \<Rightarrow> fallback)"

text \<open>
  The object \<^verbatim>\<open>noteData\<close> that \<^verbatim>\<open>createNote\<close> hands to the adapter.
\<close>

record noteData =
  nd_title :: string
  nd_content :: string
  nd_updated :: string
  nd_created :: string

text \<open>
  The four functions imported from \<^verbatim>\<open>$lib/supabaseClient\<close>. The module is not among the
  sources, so the functions are parameters of the model: each one reads and changes a backend
  state of an arbitrary type \<open>'b\<close> and either throws (\<open>Inl\<close>) or returns (\<open>Inr\<close>). An awaited
  call is one step; the component is modelled without interleaving of operations.
\<close>

record 'b adapter =
  supabaseFetchNotes :: "'b \<Rightarrow> (exn + string Note list) \<times> 'b"
  supabaseCreateNote :: "noteData \<Rightarrow> 'b \<Rightarrow> (exn + string Note) \<times> 'b"
  supabaseUpdateNote :: "string \<Rightarrow> string partial_note \<Rightarrow> 'b \<Rightarrow> (exn + string Note) \<times> 'b"
  supabaseDeleteNote :: "string \<Rightarrow> 'b \<Rightarrow> (exn + unit) \<times> 'b"

text \<open>
  \<^verbatim>\<open>!selectedNoteId\<close> holds for \<^verbatim>\<open>null\<close> and for the empty string.
\<close>

definition falsy_id :: "string option \<Rightarrow> bool" where
  "falsy_id x = (case x of None \<Rightarrow> True | Some i \<Rightarrow> i = [])"

text \<open>
  The function mapped over the fetched notes:
  \<^verbatim>\<open>(note) => ({ ...note, created: note.created || note.updated, updated: note.updated })\<close>.
  The empty string is the falsy value of a timestamp string.
\<close>

definition fill_created :: "string Note \<Rightarrow> string Note" where
  "fill_created n =
     n\<lparr> created := (if created n \<noteq> [] then created n else updated n), updated := updated n \<rparr>"

text \<open>
  \<^verbatim>\<open>async function loadNotes()\<close>: the first argument is the adapter, the pair is the component
  state and the backend state.
\<close>

fun loadNotes :: "'b adapter \<Rightarrow> astore \<times> 'b \<Rightarrow> astore \<times> 'b" where
  "loadNotes adp (s, b) =
       (let s1 = s\<lparr> loading := True, error := None \<rparr> in
        case supabaseFetchNotes adp b of
          (Inr data, b') \<Rightarrow>
            let s2 = s1\<lparr> notes_list := map fill_created data \<rparr>;
                s3 = (case notes_list s2 of
                        [] \<Rightarrow> s2
                      | n # _ \<Rightarrow>
                          if falsy_id (selectedNoteId s2)
                          then s2\<lparr> selectedNoteId := Some (note_id n) \<rparr> else s2)
            in (s3\<lparr> loading := False \<rparr>, b')
        | (Inl e, b') \<Rightarrow>
            (s1\<lparr> error := Some (catch_message e ''Failed to load notes''), loading := False \<rparr>, b'))"

text \<open>
  \<^verbatim>\<open>async function createNote()\<close>; \<open>now\<close> is \<^verbatim>\<open>new Date().toISOString()\<close>.
\<close>

fun createNote :: "'b adapter \<Rightarrow> string \<Rightarrow> astore \<times> 'b \<Rightarrow> astore \<times> 'b" where
  "createNote adp now (s, b) =
       (let noteData = \<lparr> nd_title = ''Untitled Note'', nd_content = [],
                          nd_updated = now, nd_created = now \<rparr>;
            s1 = s\<lparr> loading := True, error := None \<rparr> in
        case supabaseCreateNote adp noteData b of
          (Inr n, b') \<Rightarrow>
            (s1\<lparr> notes_list := n # notes_list s1, selectedNoteId := Some (note_id n),
                 editing := True, loading := False \<rparr>, b')
        | (Inl e, b') \<Rightarrow>
            (s1\<lparr> error := Some (catch_message e ''Failed to create note''), loading := False \<rparr>, b'))"

text \<open>
  \<^verbatim>\<open>async function updateNote(id: string, updatedData: Partial<Note>)\<close>: every note with the
  given id becomes \<^verbatim>\<open>{ ...n, ...note }\<close>, where \<^verbatim>\<open>note\<close> is the record the adapter returned.
\<close>

fun updateNote ::
  "'b adapter \<Rightarrow> string \<Rightarrow> string partial_note \<Rightarrow> astore \<times> 'b \<Rightarrow> astore \<times> 'b" where
  "updateNote adp i updatedData (s, b) =
       (let s1 = s\<lparr> loading := True, error := None \<rparr> in
        case supabaseUpdateNote adp i updatedData b of
          (Inr r, b') \<Rightarrow>
            (s1\<lparr> notes_list :=
                   map (\<lambda>n. if note_id n = i then spread n (all_fields r) else n) (notes_list s1),
                 loading := False \<rparr>, b')
        | (Inl e, b') \<Rightarrow>
            (s1\<lparr> error := Some (catch_message e ''Failed to update note''), loading := False \<rparr>, b'))"

text \<open>
  The selection after a deletion: \<^verbatim>\<open>notes.length ? notes[0].id : null\<close>.
\<close>

definition first_id :: "'t Note list \<Rightarrow> string option" where
  "first_id ns = (case ns of [] \<Rightarrow> None | n # _ \<Rightarrow> Some (note_id n))"

text \<open>
  \<^verbatim>\<open>async function deleteNote(id: string)\<close>; \<open>confirmed\<close> is the answer of
  \<^verbatim>\<open>confirm('Delete this note?')\<close>.
\<close>

fun deleteNote :: "'b adapter \<Rightarrow> bool \<Rightarrow> string \<Rightarrow> astore \<times> 'b \<Rightarrow> astore \<times> 'b" where
  "deleteNote adp confirmed i (s, b) =
       (if \<not> confirmed then (s, b)
        else
          let s1 = s\<lparr> loading := True, error := None \<rparr> in
          case supabaseDeleteNote adp i b of
            (Inr _, b') \<Rightarrow>
              let wasSelected = (selectedNoteId s1 = Some i);
                  s2 = s1\<lparr> notes_list := filter (\<lambda>n. note_id n \<noteq> i) (notes_list s1) \<rparr>;
                  s3 = (if wasSelected then s2\<lparr> selectedNoteId := first_id (notes_list s2) \<rparr>
                        else s2)
              in (s3\<lparr> loading := False \<rparr>, b')
          | (Inl e, b') \<Rightarrow>
              (s1\<lparr> error := Some (catch_message e ''Failed to delete note''), loading := False \<rparr>, b'))"

section \<open>The local-storage variant\<close>

text \<open>
  \<^verbatim>\<open>function loadNotes() { const stored = localStorage.getItem('notes');
  notes = stored ? JSON.parse(stored) : []; }\<close>
\<close>

definition loadNotes_local :: "lstore \<Rightarrow> lstore" where
  "loadNotes_local s = s\<lparr> notes_list := (case stored s of None \<Rightarrow> [] | Some ns \<Rightarrow> ns) \<rparr>"

text \<open>
  \<^verbatim>\<open>function saveNotes() { localStorage.setItem('notes', JSON.stringify(notes)); }\<close>
  Writing the item is taken to succeed. Every operation calls \<^verbatim>\<open>saveNotes\<close> as its last
  statement, after the component state has been assigned.
\<close>

definition saveNotes :: "lstore \<Rightarrow> lstore" where
  "saveNotes s = s\<lparr> stored := Some (notes_list s) \<rparr>"

text \<open>
  \<^verbatim>\<open>String(now)\<close> for the non-negative integer that \<^verbatim>\<open>Date.now()\<close> returns: its decimal digits.
\<close>

definition digit_char :: "nat \<Rightarrow> char" where
  "digit_char d = ''0123456789'' ! d"

fun String_nat :: "nat \<Rightarrow> string" where
  "String_nat n =
     (if n < 10 then [digit_char n] else String_nat (n div 10) @ [digit_char (n mod 10)])"

declare String_nat.simps [simp del]

text \<open>\<^verbatim>\<open>function createNote()\<close>; \<open>now\<close> is \<^verbatim>\<open>Date.now()\<close>.\<close>

definition createNote_local :: "nat \<Rightarrow> lstore \<Rightarrow> lstore" where
  "createNote_local now s =
     (let n = \<lparr> note_id = String_nat now, title = ''Untitled Note'', content = [],
                created = now, updated = now \<rparr>
      in saveNotes (s\<lparr> notes_list := n # notes_list s, selectedNoteId := Some (note_id n),
                        editing := True \<rparr>))"

text \<open>
  \<^verbatim>\<open>function updateNote(id: string, updatedData: Partial<Note>)\<close>: every note with the given id
  becomes \<^verbatim>\<open>{ ...n, ...updatedData, updated: Date.now() }\<close>. The clock is read inside the
  function that is mapped over the list, once for each note with the given id: \<open>now k\<close> is
  the reading at which the note at position \<open>k\<close> is rebuilt.
\<close>

definition updateNote_local ::
  "(nat \<Rightarrow> nat) \<Rightarrow> string \<Rightarrow> nat partial_note \<Rightarrow> lstore \<Rightarrow> lstore" where
  "updateNote_local now i updatedData s =
     saveNotes (s\<lparr> notes_list :=
       map (\<lambda>(k, n). if note_id n = i then (spread n updatedData)\<lparr> updated := now k \<rparr> else n)
         (enumerate 0 (notes_list s)) \<rparr>)"

text \<open>\<^verbatim>\<open>function deleteNote(id: string)\<close>, with the answer of \<^verbatim>\<open>confirm\<close>.\<close>

definition deleteNote_local :: "bool \<Rightarrow> string \<Rightarrow> lstore \<Rightarrow> lstore" where
  "deleteNote_local confirmed i s =
     (if confirmed
      then
        let wasSelected = (selectedNoteId s = Some i);
            s2 = s\<lparr> notes_list := filter (\<lambda>n. note_id n \<noteq> i) (notes_list s) \<rparr>;
            s3 = (if wasSelected then s2\<lparr> selectedNoteId := first_id (notes_list s2) \<rparr> else s2)
        in saveNotes s3
      else s)"

section \<open>Sequences of operations\<close>

text \<open>
  A run of the local-storage variant: each creation carries the reading of \<^verbatim>\<open>Date.now()\<close> at
  which it happens, each deletion the answer of \<^verbatim>\<open>confirm\<close> and the id.
\<close>

datatype local_op = Create_local nat | Delete_local bool string

fun run_local :: "local_op list \<Rightarrow> lstore \<Rightarrow> lstore" where
  "run_local [] s = s"
| "run_local (Create_local now # ops) s = run_local ops (createNote_local now s)"
| "run_local (Delete_local confirmed i # ops) s = run_local ops (deleteNote_local confirmed i s)"

text \<open>
  A run of the adapter-backed variant: each creation carries the string of
  \<^verbatim>\<open>new Date().toISOString()\<close>.
\<close>

datatype adapter_op = Create string | Delete bool string

fun run :: "'b adapter \<Rightarrow> adapter_op list \<Rightarrow> astore \<times> 'b \<Rightarrow> astore \<times> 'b" where
  "run adp [] sb = sb"
| "run adp (Create now # ops) sb = run adp ops (createNote adp now sb)"
| "run adp (Delete confirmed i # ops) sb = run adp ops (deleteNote adp confirmed i sb)"

section \<open>The contract of the adapter\<close>

text \<open>
  Modelled from the spec: what \<^verbatim>\<open>createNote\<close> of \<^verbatim>\<open>$lib/supabaseClient\<close> (not among the sources)
  returns. The spec has ``\<^verbatim>\<open>create(fields excluding id) -> Note\<close> (adapter assigns \<^verbatim>\<open>id\<close>)'', with
  ids and timestamps assigned by the server: the note returned carries the title and the
  content it was given.
\<close>

definition create_confirmed :: "noteData \<Rightarrow> string Note \<Rightarrow> bool" where
  "create_confirmed d n = (title n = nd_title d \<and> content n = nd_content d)"

text \<open>
  Modelled from the spec: what \<^verbatim>\<open>updateNote\<close> of \<^verbatim>\<open>$lib/supabaseClient\<close> (not among the sources)
  returns. The spec has ``\<^verbatim>\<open>update(id, partial fields) -> Note\<close> (merged/confirmed record)'': the
  record returned carries the fields it was given. The timestamp \<^verbatim>\<open>updated\<close> is assigned by
  the server, and nothing is said of the fields that were not given.
\<close>

definition update_confirmed :: "string partial_note \<Rightarrow> string Note \<Rightarrow> bool" where
  "update_confirmed updatedData r =
     ((case p_note_id updatedData of None \<Rightarrow> True | Some v \<Rightarrow> note_id r = v)
      \<and> (case p_title updatedData of None \<Rightarrow> True | Some v \<Rightarrow> title r = v)
      \<and> (case p_content updatedData of None \<Rightarrow> True | Some v \<Rightarrow> content r = v)
      \<and> (case p_created updatedData of None \<Rightarrow> True | Some v \<Rightarrow> created r = v))"

section \<open>The filter in the words of the specification\<close>

text \<open>
  The capital and the small form of each letter of the ASCII alphabet.
\<close>

definition letter_pairs :: "(char \<times> char) list" where
  "letter_pairs =
     [(CHR ''A'', CHR ''a''), (CHR ''B'', CHR ''b''), (CHR ''C'', CHR ''c''),
      (CHR ''D'', CHR ''d''), (CHR ''E'', CHR ''e''), (CHR ''F'', CHR ''f''),
      (CHR ''G'', CHR ''g''), (CHR ''H'', CHR ''h''), (CHR ''I'', CHR ''i''),
      (CHR ''J'', CHR ''j''), (CHR ''K'', CHR ''k''), (CHR ''L'', CHR ''l''),
      (CHR ''M'', CHR ''m''), (CHR ''N'', CHR ''n''), (CHR ''O'', CHR ''o''),
      (CHR ''P'', CHR ''p''), (CHR ''Q'', CHR ''q''), (CHR ''R'', CHR ''r''),
      (CHR ''S'', CHR ''s''), (CHR ''T'', CHR ''t''), (CHR ''U'', CHR ''u''),
      (CHR ''V'', CHR ''v''), (CHR ''W'', CHR ''w''), (CHR ''X'', CHR ''x''),
      (CHR ''Y'', CHR ''y''), (CHR ''Z'', CHR ''z'')]"

text \<open>
  Two characters are the same up to case: they are equal, or one is the capital and the other
  the small form of one letter.
\<close>

definition same_letter :: "char \<Rightarrow> char \<Rightarrow> bool" where
  "same_letter a b = (a = b \<or> (a, b) \<in> set letter_pairs \<or> (b, a) \<in> set letter_pairs)"

text \<open>
  ``\<open>s\<close> contains \<open>t\<close> as a case-insensitive substring'': some contiguous part of \<open>s\<close> is \<open>t\<close> up
  to the case of its letters. In particular a string that contains \<open>t\<close> as it is written
  contains it in this sense.
\<close>

definition contains_ignoring_case :: "string \<Rightarrow> string \<Rightarrow> bool" where
  "contains_ignoring_case s t = (\<exists>pre u post. s = pre @ u @ post \<and> list_all2 same_letter u t)"

section \<open>Example states and an in-memory adapter\<close>

text \<open>
  Two notes, as in the scenario ``list = [A(id=1), B(id=2)]'', with a given timestamp.
\<close>

definition note_A :: "'t \<Rightarrow> 't Note" where
  "note_A ts = \<lparr> note_id = ''1'', title = ''Shopping'', content = ''Milk and bread'',
                 created = ts, updated = ts \<rparr>"

definition note_B :: "'t \<Rightarrow> 't Note" where
  "note_B ts = \<lparr> note_id = ''2'', title = ''Ideas'', content = ''Write more'',
                 created = ts, updated = ts \<rparr>"

text \<open>
  An adapter that keeps its rows in memory: it fails when it is offline, numbers the notes it
  creates, and answers an update with the merged row. It instantiates the adapter parameter
  of the theorems below at concrete inputs.
\<close>

record backend =
  rows :: "string Note list"
  next_id :: nat
  online :: bool

definition mem_adapter :: "backend adapter" where
  "mem_adapter =
     \<lparr> supabaseFetchNotes = (\<lambda>b.
         if online b then (Inr (rows b), b) else (Inl (Error ''offline''), b)),
       supabaseCreateNote = (\<lambda>d b.
         if online b
         then (let n = \<lparr> note_id = String_nat (next_id b), title = nd_title d,
                         content = nd_content d, created = nd_created d,
                         updated = nd_updated d \<rparr>
               in (Inr n, b\<lparr> rows := n # rows b, next_id := Suc (next_id b) \<rparr>))
         else (Inl (Error ''offline''), b)),
       supabaseUpdateNote = (\<lambda>i p b.
         if online b
         then (case find (\<lambda>n. note_id n = i) (rows b) of
                 None \<Rightarrow> (Inl (Error ''not found''), b)
               | Some n \<Rightarrow>
                   (Inr (spread n p),
                    b\<lparr> rows := map (\<lambda>m. if note_id m = i then spread n p else m) (rows b) \<rparr>))
         else (Inl (Error ''offline''), b)),
       supabaseDeleteNote = (\<lambda>i b.
         if online b
         then (Inr (), b\<lparr> rows := filter (\<lambda>n. note_id n \<noteq> i) (rows b) \<rparr>)
         else (Inl (Error ''offline''), b)) \<rparr>"

definition stamp :: string where
  "stamp = ''2024-05-01T10:00:00.000Z''"

definition backend_AB :: backend where
  "backend_AB = \<lparr> rows = [note_A stamp, note_B stamp], next_id = 3, online = True \<rparr>"

definition astore_AB :: astore where
  "astore_AB = empty_astore\<lparr> notes_list := [note_A stamp, note_B stamp],
                               selectedNoteId := Some ''1'' \<rparr>"

definition lstore_AB :: lstore where
  "lstore_AB = empty_lstore\<lparr> notes_list := [note_A 1000, note_B 2000],
                               selectedNoteId := Some ''1'',
                               stored := Some [note_A 1000, note_B 2000] \<rparr>"

text \<open>
  The local store before its notes are loaded: two notes in \<^verbatim>\<open>localStorage\<close>, none in memory,
  none selected.
\<close>

definition lstore_unloaded :: lstore where
  "lstore_unloaded = empty_lstore\<lparr> stored := Some [note_A 1000, note_B 2000] \<rparr>"

text \<open>
  A backend whose only row has no creation time, and the component state after
  \<^verbatim>\<open>loadNotes\<close> has run on it.
\<close>

definition backend_no_created :: backend where
  "backend_no_created =
     \<lparr> rows = [(note_A stamp)\<lparr> created := [] \<rparr>], next_id = 2, online = True \<rparr>"

definition astore_loaded :: astore where
  "astore_loaded = fst (loadNotes mem_adapter (empty_astore, backend_no_created))"

text \<open>
  The Greek word for ``street'' in capitals (omicron, delta, omicron, sigma), the same word in
  small letters, which ends in the final sigma, the capital sigma alone and the small sigma
  alone, each in UTF-8.
\<close>

definition greek_ODOS :: string where
  "greek_ODOS = [CHR 0xCE, CHR 0x9F, CHR 0xCE, CHR 0x94, CHR 0xCE, CHR 0x9F, CHR 0xCE, CHR 0xA3]"

definition greek_odos :: string where
  "greek_odos = [CHR 0xCE, CHR 0xBF, CHR 0xCE, CHR 0xB4, CHR 0xCE, CHR 0xBF, CHR 0xCF, CHR 0x82]"

definition greek_SIGMA :: string where
  "greek_SIGMA = [CHR 0xCE, CHR 0xA3]"

definition greek_sigma :: string where
  "greek_sigma = [CHR 0xCF, CHR 0x83]"

text \<open>
  The values of \<^verbatim>\<open>String.prototype.toLowerCase\<close> on the strings of the examples: ASCII text is
  converted letter by letter; the capital sigma that ends the word becomes the final small
  sigma, and the capital sigma alone becomes the small sigma. The function instantiates the
  parameter \<open>toLowerCase\<close> at these strings only.
\<close>

definition toLowerCase_sample :: "string \<Rightarrow> string" where
  "toLowerCase_sample x =
     (if x = greek_ODOS then greek_odos
      else if x = greek_SIGMA then greek_sigma
      else map ascii_lower x)"

text \<open>
  A local store with one note, titled with the Greek word in capitals, and the capital sigma
  as the search term.
\<close>

definition note_odos :: "nat Note" where
  "note_odos = \<lparr> note_id = ''3'', title = greek_ODOS, content = [], created = 3000,
                 updated = 3000 \<rparr>"

definition lstore_odos :: lstore where
  "lstore_odos = empty_lstore\<lparr> notes_list := [note_odos], searchTerm := greek_SIGMA \<rparr>"

section \<open>Predicates used in the statements\<close>

text \<open>
  Between a note \<open>n\<close> and its successor \<open>n'\<close>, every field other than \<^verbatim>\<open>updated\<close> has the
  supplied value where \<open>updatedData\<close> supplies one, and its old value where it supplies none.
\<close>

definition only_supplied_changed :: "'t Note \<Rightarrow> 't partial_note \<Rightarrow> 't Note \<Rightarrow> bool" where
  "only_supplied_changed n updatedData n' =
     (note_id n' = (case p_note_id updatedData of None \<Rightarrow> note_id n | Some v \<Rightarrow> v)
      \<and> title n' = (case p_title updatedData of None \<Rightarrow> title n | Some v \<Rightarrow> v)
      \<and> content n' = (case p_content updatedData of None \<Rightarrow> content n | Some v \<Rightarrow> v)
      \<and> created n' = (case p_created updatedData of None \<Rightarrow> created n | Some v \<Rightarrow> v))"

text \<open>The argument \<^verbatim>\<open>{ title: x }\<close> of an update.\<close>

definition title_only :: "string \<Rightarrow> 't partial_note" where
  "title_only x = \<lparr> p_note_id = None, p_title = Some x, p_content = None, p_created = None,
                    p_updated = None \<rparr>"

text \<open>
  A run of the local-storage variant in which the clock never yields, at a creation, a reading
  whose decimal string is the id of a note in the list.
\<close>

fun fresh_clock :: "local_op list \<Rightarrow> lstore \<Rightarrow> bool" where
  "fresh_clock [] s = True"
| "fresh_clock (Create_local now # ops) s =
     (String_nat now \<notin> set (map note_id (notes_list s))
      \<and> fresh_clock ops (createNote_local now s))"
| "fresh_clock (Delete_local confirmed i # ops) s =
     fresh_clock ops (deleteNote_local confirmed i s)"

text \<open>
  A run of the adapter-backed variant in which the adapter never returns, from a creation, a
  note whose id is the id of a note in the list.
\<close>

fun fresh_ids :: "'b adapter \<Rightarrow> adapter_op list \<Rightarrow> astore \<times> 'b \<Rightarrow> bool" where
  "fresh_ids adp [] sb = True"
| "fresh_ids adp (Create now # ops) sb =
     ((case fst (supabaseCreateNote adp
                  \<lparr> nd_title = ''Untitled Note'', nd_content = [], nd_updated = now,
                    nd_created = now \<rparr>
                  (snd sb)) of
         Inl e \<Rightarrow> True
       | Inr n \<Rightarrow> note_id n \<notin> set (map note_id (notes_list (fst sb))))
      \<and> fresh_ids adp ops (createNote adp now sb))"
| "fresh_ids adp (Delete confirmed i # ops) sb =
     fresh_ids adp ops (deleteNote adp confirmed i sb)"

section \<open>Strings and spreads\<close>

lemma includes_str_iff: "includes_str s t \<longleftrightarrow> (\<exists>pre post. s = pre @ t @ post)"
proof (induction s)
  case Nil
  then show ?case by auto
next
  case (Cons c cs)
  have "(\<exists>pre post. c # cs = pre @ t @ post)
        \<longleftrightarrow> prefix t (c # cs) \<or> (\<exists>pre post. cs = pre @ t @ post)"
    (is "?L \<longleftrightarrow> ?R")
  proof
    assume ?L
    then obtain pre post where e: "c # cs = pre @ t @ post" by blast
    show ?R
    proof (cases pre)
      case Nil
      with e show ?thesis by (auto simp: prefix_def)
    next
      case (Cons a pre')
      with e have "cs = pre' @ t @ post" by simp
      then show ?thesis by blast
    qed
  next
    assume ?R
    then show ?L
    proof
      assume "prefix t (c # cs)"
      then obtain post where "c # cs = t @ post" by (auto simp: prefix_def)
      then have "c # cs = [] @ t @ post" by simp
      then show ?L by blast
    next
      assume "\<exists>pre post. cs = pre @ t @ post"
      then obtain pre post where "cs = pre @ t @ post" by blast
      then have "c # cs = (c # pre) @ t @ post" by simp
      then show ?L by blast
    qed
  qed
  with Cons show ?case by simp
qed

lemma fold_pairs_eq_iff:
  assumes d1: "distinct (map fst ps)" and d2: "distinct (map snd ps)"
    and dj: "set (map fst ps) \<inter> set (map snd ps) = {}"
  shows "(case map_of ps a of None \<Rightarrow> a | Some l \<Rightarrow> l)
           = (case map_of ps b of None \<Rightarrow> b | Some l \<Rightarrow> l)
         \<longleftrightarrow> a = b \<or> (a, b) \<in> set ps \<or> (b, a) \<in> set ps"
proof -
  have inj: "x = y" if "(x, l) \<in> set ps" "(y, l) \<in> set ps" for x y l
  proof -
    have "distinct (map fst (map prod.swap ps))" using d2 by (simp add: comp_def)
    moreover have "(l, x) \<in> set (map prod.swap ps)" "(l, y) \<in> set (map prod.swap ps)"
      using that by force+
    ultimately show ?thesis by (rule eq_key_imp_eq_value)
  qed
  have some: "map_of ps x = Some l \<longleftrightarrow> (x, l) \<in> set ps" for x l
    using d1 by (auto dest: map_of_SomeD)
  have func: "l = l'" if "(x, l) \<in> set ps" "(x, l') \<in> set ps" for x l l'
    using d1 that by (rule eq_key_imp_eq_value)
  have no_chain: "(x, y) \<notin> set ps" if "(y, l) \<in> set ps" for x y l
  proof
    assume "(x, y) \<in> set ps"
    then have "y \<in> set (map snd ps)" by force
    moreover from that have "y \<in> set (map fst ps)" by force
    ultimately show False using dj by blast
  qed
  show ?thesis
  proof (cases "map_of ps a")
    case None
    then have na: "\<And>l. (a, l) \<notin> set ps"
      by (force simp: map_of_eq_None_iff)
    show ?thesis
    proof (cases "map_of ps b")
      case nb: None
      then have "\<And>l. (b, l) \<notin> set ps"
        by (force simp: map_of_eq_None_iff)
      with na show ?thesis by (simp add: None nb)
    next
      case (Some l)
      then have bl: "(b, l) \<in> set ps" by (simp add: some)
      have "a \<noteq> b" using na bl by blast
      moreover have "(b, a) \<in> set ps \<longleftrightarrow> a = l" using bl func by blast
      ultimately show ?thesis using na by (simp add: None Some)
    qed
  next
    case (Some l)
    then have al: "(a, l) \<in> set ps" by (simp add: some)
    show ?thesis
    proof (cases "map_of ps b")
      case None
      then have nb: "\<And>l. (b, l) \<notin> set ps"
        by (force simp: map_of_eq_None_iff)
      have "a \<noteq> b" using nb al by blast
      moreover have "(a, b) \<in> set ps \<longleftrightarrow> l = b" using al func by blast
      ultimately show ?thesis using nb by (simp add: None Some)
    next
      case sb: (Some l')
      then have bl: "(b, l') \<in> set ps" by (simp add: some)
      have "(a, b) \<notin> set ps" "(b, a) \<notin> set ps"
        using no_chain al bl by blast+
      moreover have "l = l' \<longleftrightarrow> a = b" using al bl inj func by blast
      ultimately show ?thesis by (simp add: Some sb)
    qed
  qed
qed

lemma ascii_lower_eq_iff: "ascii_lower a = ascii_lower b \<longleftrightarrow> same_letter a b"
proof -
  have z: "zip ''ABCDEFGHIJKLMNOPQRSTUVWXYZ'' ''abcdefghijklmnopqrstuvwxyz'' = letter_pairs"
    by (simp add: letter_pairs_def)
  have d1: "distinct (map fst letter_pairs)" by (simp add: letter_pairs_def)
  have d2: "distinct (map snd letter_pairs)" by (simp add: letter_pairs_def)
  have dj: "set (map fst letter_pairs) \<inter> set (map snd letter_pairs) = {}"
    by (simp add: letter_pairs_def)
  show ?thesis
    unfolding ascii_lower_def z same_letter_def by (rule fold_pairs_eq_iff [OF d1 d2 dj])
qed

lemma same_letters_iff: "list_all2 same_letter u t \<longleftrightarrow> map ascii_lower u = map ascii_lower t"
  by (induction u arbitrary: t) (auto simp: list_all2_Cons1 ascii_lower_eq_iff)

lemma includes_ascii_lower_iff:
  "includes_str (map ascii_lower s) (map ascii_lower t) \<longleftrightarrow> contains_ignoring_case s t"
proof
  assume "includes_str (map ascii_lower s) (map ascii_lower t)"
  then obtain pre post where "map ascii_lower s = pre @ (map ascii_lower t @ post)"
    by (auto simp: includes_str_iff)
  then obtain a r where a: "s = a @ r" "map ascii_lower r = map ascii_lower t @ post"
    by (metis map_eq_append_conv)
  from a(2) obtain b c where b: "r = b @ c" "map ascii_lower b = map ascii_lower t"
    by (metis map_eq_append_conv)
  from a(1) b have "s = a @ b @ c" "list_all2 same_letter b t"
    by (simp_all add: same_letters_iff)
  then show "contains_ignoring_case s t"
    unfolding contains_ignoring_case_def by blast
next
  assume "contains_ignoring_case s t"
  then obtain pre u post where "s = pre @ u @ post" "map ascii_lower u = map ascii_lower t"
    unfolding contains_ignoring_case_def same_letters_iff by blast
  then have "map ascii_lower s = map ascii_lower pre @ map ascii_lower t @ map ascii_lower post"
    by simp
  then show "includes_str (map ascii_lower s) (map ascii_lower t)"
    unfolding includes_str_iff by blast
qed

lemma contains_verbatim: "contains_ignoring_case (pre @ t @ post) t"
proof -
  have "list_all2 same_letter t t"
    by (simp add: list_all2_same same_letter_def)
  then show ?thesis
    unfolding contains_ignoring_case_def by blast
qed

lemma toLowerCase_sample_lowers_ascii: "lowers_ascii toLowerCase_sample"
proof -
  have "\<not> is_ascii greek_ODOS" "\<not> is_ascii greek_SIGMA"
    by (simp_all add: is_ascii_def greek_ODOS_def greek_SIGMA_def)
  then show ?thesis
    unfolding lowers_ascii_def toLowerCase_sample_def by auto
qed

lemma spread_all_fields: "spread n (all_fields r) = r"
  by (simp add: spread_def all_fields_def)

lemma spread_title_only:
  "title (spread n (title_only x)) = x" "note_id (spread n (title_only x)) = note_id n"
  by (simp_all add: spread_def title_only_def)

lemma update_confirmed_title_only: "update_confirmed (title_only x) r \<longleftrightarrow> title r = x"
  by (simp add: update_confirmed_def title_only_def)

lemma map_enumerate_pointwise:
  "(\<And>k n. f (g k n) = h n) \<Longrightarrow> map f (map (\<lambda>(k, n). g k n) (enumerate m xs)) = map h xs"
  by (induction xs arbitrary: m) simp_all

section \<open>Deleting\<close>

text \<open>
  C3. When the user declines the confirmation, \<^verbatim>\<open>deleteNote\<close> does nothing. In the
  adapter-backed variant the component state (list, selection, search term, editing flag,
  loading flag and error) and the backend state are returned as they were, for every adapter
  and every backend state: no function of the adapter is applied. In the local-storage variant
  the component state and the stored item are returned as they were.
\<close>

theorem deleteNote_declined:
  "deleteNote adp False i (s, b) = (s, b) \<and> deleteNote_local False i ls = ls"
  by (simp add: deleteNote_local_def)

text \<open>
  By contrast, a confirmed deletion does reach the adapter: the in-memory adapter loses the
  row.
\<close>

lemma deleteNote_confirmed_calls_adapter:
  "snd (deleteNote mem_adapter False ''1'' (astore_AB, backend_AB)) = backend_AB
   \<and> rows (snd (deleteNote mem_adapter True ''1'' (astore_AB, backend_AB))) = [note_B stamp]"
  by (simp add: mem_adapter_def backend_AB_def note_A_def note_B_def Let_def)

text \<open>
  C2. When the deletion of the selected note is confirmed and the adapter succeeds, the note
  is filtered out of the list, and the selection becomes the id of the first note of the
  remaining list, or nothing when no note remains. Both variants.
\<close>

theorem deleteNote_selected:
  assumes "supabaseDeleteNote adp i b = (Inr u, b')"
    and "selectedNoteId s = Some i" and "selectedNoteId ls = Some i"
  shows "(let s' = fst (deleteNote adp True i (s, b)) in
            notes_list s' = filter (\<lambda>n. note_id n \<noteq> i) (notes_list s)
            \<and> selectedNoteId s'
                = (case notes_list s' of [] \<Rightarrow> None | n # _ \<Rightarrow> Some (note_id n)))
       \<and> (let ls' = deleteNote_local True i ls in
            notes_list ls' = filter (\<lambda>n. note_id n \<noteq> i) (notes_list ls)
            \<and> selectedNoteId ls'
                = (case notes_list ls' of [] \<Rightarrow> None | n # _ \<Rightarrow> Some (note_id n)))"
  using assms by (simp add: deleteNote_local_def saveNotes_def first_id_def Let_def)

text \<open>
  The scenario ``list = [A(id=1), B(id=2)], selectedId = 1, delete(1) confirmed'': the list
  becomes [B] and the selection 2.
\<close>

theorem deleteNote_selected_witness:
  "supabaseDeleteNote mem_adapter ''1'' backend_AB
     = (Inr (), backend_AB\<lparr> rows := [note_B stamp] \<rparr>)
   \<and> selectedNoteId astore_AB = Some ''1'' \<and> selectedNoteId lstore_AB = Some ''1''
   \<and> notes_list (fst (deleteNote mem_adapter True ''1'' (astore_AB, backend_AB))) = [note_B stamp]
   \<and> selectedNoteId (fst (deleteNote mem_adapter True ''1'' (astore_AB, backend_AB))) = Some ''2''
   \<and> notes_list (deleteNote_local True ''1'' lstore_AB) = [note_B 2000]
   \<and> selectedNoteId (deleteNote_local True ''1'' lstore_AB) = Some ''2''"
proof -
  have h1: "supabaseDeleteNote mem_adapter ''1'' backend_AB
              = (Inr (), backend_AB\<lparr> rows := [note_B stamp] \<rparr>)"
    by (simp add: mem_adapter_def backend_AB_def note_A_def note_B_def)
  have h2: "selectedNoteId astore_AB = Some ''1''"
    by (simp add: astore_AB_def)
  have h3: "selectedNoteId lstore_AB = Some ''1''"
    by (simp add: lstore_AB_def)
  from deleteNote_selected [OF h1 h2 h3] h1 h2 h3 show ?thesis
    by (simp add: astore_AB_def lstore_AB_def empty_astore_def empty_lstore_def note_A_def
        note_B_def deleteNote_local_def saveNotes_def first_id_def Let_def)
qed

section \<open>Searching\<close>

text \<open>
  C4, as the code has it. With an empty search term the visible notes are the whole list;
  otherwise they are the notes, in the order of the list, for which the lower-cased search
  term occurs in the lower-cased title or in the lower-cased content, whatever
  \<^verbatim>\<open>toLowerCase\<close> computes. The view is a function of the state that returns a list and no
  state, and what it returns is a subsequence of the list. When the search term, the titles
  and the contents are ASCII text, which \<^verbatim>\<open>toLowerCase\<close> converts letter by letter, the
  visible notes are the notes whose title or content contains the term as a case-insensitive
  substring.
\<close>

theorem filteredNotes_spec:
  "filteredNotes toLowerCase s =
     (if searchTerm s = [] then notes_list s
      else filter (\<lambda>n. sublist (toLowerCase (searchTerm s)) (toLowerCase (title n))
                       \<or> sublist (toLowerCase (searchTerm s)) (toLowerCase (content n)))
             (notes_list s))
   \<and> subseq (filteredNotes toLowerCase s) (notes_list s)
   \<and> (lowers_ascii toLowerCase \<and> is_ascii (searchTerm s)
        \<and> (\<forall>n \<in> set (notes_list s). is_ascii (title n) \<and> is_ascii (content n))
      \<longrightarrow> filteredNotes toLowerCase s =
            (if searchTerm s = [] then notes_list s
             else filter (\<lambda>n. contains_ignoring_case (title n) (searchTerm s)
                              \<or> contains_ignoring_case (content n) (searchTerm s))
                    (notes_list s)))"
proof (intro conjI impI)
  show "filteredNotes toLowerCase s =
     (if searchTerm s = [] then notes_list s
      else filter (\<lambda>n. sublist (toLowerCase (searchTerm s)) (toLowerCase (title n))
                       \<or> sublist (toLowerCase (searchTerm s)) (toLowerCase (content n)))
             (notes_list s))"
    by (simp add: filteredNotes_def includes_str_iff sublist_def)
  show "subseq (filteredNotes toLowerCase s) (notes_list s)"
    by (simp add: filteredNotes_def)
  assume h: "lowers_ascii toLowerCase \<and> is_ascii (searchTerm s)
        \<and> (\<forall>n \<in> set (notes_list s). is_ascii (title n) \<and> is_ascii (content n))"
  then have t: "toLowerCase (searchTerm s) = map ascii_lower (searchTerm s)"
    by (simp add: lowers_ascii_def)
  have n: "toLowerCase (title n) = map ascii_lower (title n)
           \<and> toLowerCase (content n) = map ascii_lower (content n)"
    if "n \<in> set (notes_list s)" for n
    using h that by (simp add: lowers_ascii_def)
  have "filter (\<lambda>n. includes_str (toLowerCase (title n)) (toLowerCase (searchTerm s))
                    \<or> includes_str (toLowerCase (content n)) (toLowerCase (searchTerm s)))
          (notes_list s)
        = filter (\<lambda>n. contains_ignoring_case (title n) (searchTerm s)
                      \<or> contains_ignoring_case (content n) (searchTerm s)) (notes_list s)"
    by (rule filter_cong) (simp_all add: t n includes_ascii_lower_iff)
  then show "filteredNotes toLowerCase s =
            (if searchTerm s = [] then notes_list s
             else filter (\<lambda>n. contains_ignoring_case (title n) (searchTerm s)
                              \<or> contains_ignoring_case (content n) (searchTerm s))
                    (notes_list s))"
    by (simp add: filteredNotes_def)
qed

text \<open>
  With the notes A and B and the term ``IDEA'', all ASCII, the visible notes are the notes
  that contain the term up to case: note B.
\<close>

theorem filteredNotes_spec_witness:
  "searchTerm (setSearchTerm ''IDEA'' lstore_AB) = ''IDEA''
   \<and> filteredNotes toLowerCase_sample (setSearchTerm ''IDEA'' lstore_AB) = [note_B 2000]
   \<and> filter (\<lambda>n. contains_ignoring_case (title n) ''IDEA''
                  \<or> contains_ignoring_case (content n) ''IDEA'')
        (notes_list (setSearchTerm ''IDEA'' lstore_AB)) = [note_B 2000]"
proof -
  have h: "lowers_ascii toLowerCase_sample
           \<and> is_ascii (searchTerm (setSearchTerm ''IDEA'' lstore_AB))
           \<and> (\<forall>n \<in> set (notes_list (setSearchTerm ''IDEA'' lstore_AB)).
                 is_ascii (title n) \<and> is_ascii (content n))"
    by (simp add: toLowerCase_sample_lowers_ascii setSearchTerm_def lstore_AB_def
        empty_lstore_def note_A_def note_B_def is_ascii_def)
  have t: "searchTerm (setSearchTerm ''IDEA'' lstore_AB) = ''IDEA''"
    by (simp add: setSearchTerm_def)
  have e: "filteredNotes toLowerCase_sample (setSearchTerm ''IDEA'' lstore_AB) = [note_B 2000]"
    by (simp add: setSearchTerm_def filteredNotes_def lstore_AB_def empty_lstore_def note_A_def
        note_B_def toLowerCase_sample_def greek_ODOS_def greek_SIGMA_def ascii_lower_def)
  from filteredNotes_spec [where toLowerCase = toLowerCase_sample
      and s = "setSearchTerm ''IDEA'' lstore_AB"] h
  have "filteredNotes toLowerCase_sample (setSearchTerm ''IDEA'' lstore_AB)
          = (if searchTerm (setSearchTerm ''IDEA'' lstore_AB) = []
             then notes_list (setSearchTerm ''IDEA'' lstore_AB)
             else filter (\<lambda>n. contains_ignoring_case (title n)
                                (searchTerm (setSearchTerm ''IDEA'' lstore_AB))
                              \<or> contains_ignoring_case (content n)
                                  (searchTerm (setSearchTerm ''IDEA'' lstore_AB)))
                    (notes_list (setSearchTerm ''IDEA'' lstore_AB)))"
    by blast
  then have "[note_B 2000]
          = filter (\<lambda>n. contains_ignoring_case (title n) ''IDEA''
                        \<or> contains_ignoring_case (content n) ''IDEA'')
              (notes_list (setSearchTerm ''IDEA'' lstore_AB))"
    unfolding e t by simp
  with e t show ?thesis by simp
qed

text \<open>
  The only note is titled with the Greek word in capitals and the search term is the capital
  sigma, the last letter of the title as it is written. The title contains the term, so the
  note is among the notes that contain the term as a case-insensitive substring; but the
  lower-cased title ends in the final sigma, the lower-cased term is the other small sigma, and
  no note is visible.
\<close>

theorem filteredNotes_final_sigma:
  "notes_list lstore_odos = [note_odos]
   \<and> searchTerm lstore_odos = greek_SIGMA
   \<and> title note_odos = take 6 greek_ODOS @ greek_SIGMA
   \<and> contains_ignoring_case (title note_odos) (searchTerm lstore_odos)
   \<and> filter (\<lambda>n. contains_ignoring_case (title n) (searchTerm lstore_odos)
                  \<or> contains_ignoring_case (content n) (searchTerm lstore_odos))
        (notes_list lstore_odos) = [note_odos]
   \<and> filteredNotes toLowerCase_sample lstore_odos = []"
proof -
  have t: "title note_odos = take 6 greek_ODOS @ greek_SIGMA @ []"
    by (simp add: note_odos_def greek_ODOS_def greek_SIGMA_def)
  have c: "contains_ignoring_case (title note_odos) greek_SIGMA"
    unfolding t by (rule contains_verbatim)
  have s: "searchTerm lstore_odos = greek_SIGMA" "notes_list lstore_odos = [note_odos]"
    by (simp_all add: lstore_odos_def)
  have f: "filteredNotes toLowerCase_sample lstore_odos = []"
    by (simp add: filteredNotes_def lstore_odos_def empty_lstore_def note_odos_def
        toLowerCase_sample_def greek_ODOS_def greek_SIGMA_def greek_odos_def greek_sigma_def)
  from t c s f show ?thesis by simp
qed

text \<open>
  C10. Setting the search term changes neither the selected id nor the selected note, which is
  looked up in the whole list: a selected note that the term hides from the visible notes is
  still the selected note. Both variants (the store is any extension of the shared state), and
  whatever \<^verbatim>\<open>toLowerCase\<close> computes.
\<close>

theorem setSearchTerm_keeps_selection:
  "selectedNoteId (setSearchTerm t s) = selectedNoteId s
   \<and> selectedNote (setSearchTerm t s) = selectedNote s
   \<and> (selectedNote s = Some n \<and> n \<notin> set (filteredNotes toLowerCase (setSearchTerm t s))
        \<longrightarrow> selectedNote (setSearchTerm t s) = Some n)"
  by (simp add: setSearchTerm_def selectedNote_def split: option.splits)

text \<open>
  Note A is selected; the term ``IDEA'' leaves only note B visible; note A stays selected.
\<close>

theorem setSearchTerm_keeps_selection_witness:
  "selectedNote lstore_AB = Some (note_A 1000)
   \<and> note_A 1000 \<notin> set (filteredNotes toLowerCase_sample (setSearchTerm ''IDEA'' lstore_AB))
   \<and> filteredNotes toLowerCase_sample (setSearchTerm ''IDEA'' lstore_AB) = [note_B 2000]
   \<and> selectedNoteId (setSearchTerm ''IDEA'' lstore_AB) = Some ''1''
   \<and> selectedNote (setSearchTerm ''IDEA'' lstore_AB) = Some (note_A 1000)"
  using setSearchTerm_keeps_selection [where t = "''IDEA''" and s = lstore_AB
      and n = "note_A 1000" and toLowerCase = toLowerCase_sample]
  by (simp add: setSearchTerm_def selectedNote_def filteredNotes_def lstore_AB_def
      empty_lstore_def note_A_def note_B_def toLowerCase_sample_def greek_ODOS_def
      greek_SIGMA_def ascii_lower_def)

section \<open>Creating\<close>

text \<open>
  C5. When the adapter fails to create the note, \<^verbatim>\<open>createNote\<close> leaves the list, the selection
  and the editing flag as they were and sets the error to the message of the exception (or to
  ``Failed to create note'' when the thrown value is no \<^verbatim>\<open>Error\<close>); apart from the error and
  the loading flag the state is unchanged.
\<close>

theorem createNote_failure:
  assumes "supabaseCreateNote adp
             \<lparr> nd_title = ''Untitled Note'', nd_content = [], nd_updated = now,
               nd_created = now \<rparr> b
           = (Inl e, b')"
  shows "(let s' = fst (createNote adp now (s, b)) in
            notes_list s' = notes_list s
            \<and> error s' = Some (catch_message e ''Failed to create note'')
            \<and> selectedNoteId s' = selectedNoteId s
            \<and> editing s' = editing s
            \<and> s' = s\<lparr> loading := False,
                       error := Some (catch_message e ''Failed to create note'') \<rparr>)"
  using assms by (simp add: Let_def)

theorem createNote_failure_witness:
  "supabaseCreateNote mem_adapter
     \<lparr> nd_title = ''Untitled Note'', nd_content = [], nd_updated = stamp, nd_created = stamp \<rparr>
     (backend_AB\<lparr> online := False \<rparr>)
   = (Inl (Error ''offline''), backend_AB\<lparr> online := False \<rparr>)
   \<and> notes_list (fst (createNote mem_adapter stamp (astore_AB, backend_AB\<lparr> online := False \<rparr>)))
       = [note_A stamp, note_B stamp]
   \<and> error (fst (createNote mem_adapter stamp (astore_AB, backend_AB\<lparr> online := False \<rparr>)))
       = Some ''offline''
   \<and> selectedNoteId (fst (createNote mem_adapter stamp (astore_AB, backend_AB\<lparr> online := False \<rparr>)))
       = Some ''1''
   \<and> editing (fst (createNote mem_adapter stamp (astore_AB, backend_AB\<lparr> online := False \<rparr>)))
       = False"
proof -
  have h: "supabaseCreateNote mem_adapter
     \<lparr> nd_title = ''Untitled Note'', nd_content = [], nd_updated = stamp, nd_created = stamp \<rparr>
     (backend_AB\<lparr> online := False \<rparr>)
   = (Inl (Error ''offline''), backend_AB\<lparr> online := False \<rparr>)"
    by (simp add: mem_adapter_def backend_AB_def)
  from createNote_failure [OF h, of astore_AB] h show ?thesis
    by (simp add: Let_def astore_AB_def empty_astore_def catch_message_def)
qed

text \<open>
  C8. After a successful creation the new note is at the head of the list, in front of the
  notes that were there, it is selected, and the editing flag is set; on an empty list it is the
  only note. In the adapter-backed variant the new note is the one the adapter returned for the
  data with title ``Untitled Note'' and empty content, and it has that title and content when
  the adapter returns what it was given. In the local-storage variant the new note has the
  title ``Untitled Note'' and empty content.
\<close>

theorem createNote_success:
  "(supabaseCreateNote adp
      \<lparr> nd_title = ''Untitled Note'', nd_content = [], nd_updated = now, nd_created = now \<rparr> b
      = (Inr n, b')
    \<and> create_confirmed
        \<lparr> nd_title = ''Untitled Note'', nd_content = [], nd_updated = now, nd_created = now \<rparr> n
    \<longrightarrow> (let s' = fst (createNote adp now (s, b)) in
           notes_list s' = n # notes_list s
           \<and> title n = ''Untitled Note'' \<and> content n = []
           \<and> selectedNoteId s' = Some (note_id n)
           \<and> editing s' = True
           \<and> (notes_list s = [] \<longrightarrow> notes_list s' = [n])))
   \<and> (let ls' = createNote_local clock ls in
         (\<exists>m. notes_list ls' = m # notes_list ls
              \<and> title m = ''Untitled Note'' \<and> content m = []
              \<and> selectedNoteId ls' = Some (note_id m)
              \<and> (notes_list ls = [] \<longrightarrow> notes_list ls' = [m]))
         \<and> editing ls' = True)"
  by (simp add: Let_def create_confirmed_def createNote_local_def saveNotes_def)

text \<open>
  The scenario ``empty store, create()'': one note titled ``Untitled Note'', selected, in
  edit mode.
\<close>

theorem createNote_success_witness:
  "supabaseCreateNote mem_adapter
      \<lparr> nd_title = ''Untitled Note'', nd_content = [], nd_updated = stamp, nd_created = stamp \<rparr>
      \<lparr> rows = [], next_id = 7, online = True \<rparr>
    = (Inr \<lparr> note_id = ''7'', title = ''Untitled Note'', content = [], created = stamp,
             updated = stamp \<rparr>,
       \<lparr> rows = [\<lparr> note_id = ''7'', title = ''Untitled Note'', content = [], created = stamp,
                   updated = stamp \<rparr>],
         next_id = 8, online = True \<rparr>)
   \<and> create_confirmed
        \<lparr> nd_title = ''Untitled Note'', nd_content = [], nd_updated = stamp, nd_created = stamp \<rparr>
        \<lparr> note_id = ''7'', title = ''Untitled Note'', content = [], created = stamp,
          updated = stamp \<rparr>
   \<and> notes_list empty_astore = []
   \<and> notes_list (fst (createNote mem_adapter stamp
                         (empty_astore, \<lparr> rows = [], next_id = 7, online = True \<rparr>)))
       = [\<lparr> note_id = ''7'', title = ''Untitled Note'', content = [], created = stamp,
            updated = stamp \<rparr>]
   \<and> selectedNoteId (fst (createNote mem_adapter stamp
                             (empty_astore, \<lparr> rows = [], next_id = 7, online = True \<rparr>)))
       = Some ''7''
   \<and> editing (fst (createNote mem_adapter stamp
                      (empty_astore, \<lparr> rows = [], next_id = 7, online = True \<rparr>)))
   \<and> notes_list empty_lstore = []
   \<and> notes_list (createNote_local 1700000000000 empty_lstore)
       = [\<lparr> note_id = ''1700000000000'', title = ''Untitled Note'', content = [],
            created = 1700000000000, updated = 1700000000000 \<rparr>]
   \<and> selectedNoteId (createNote_local 1700000000000 empty_lstore) = Some ''1700000000000''
   \<and> editing (createNote_local 1700000000000 empty_lstore)"
proof -
  have s7: "String_nat 7 = ''7''"
    by (simp add: String_nat.simps digit_char_def)
  have sn: "String_nat 1700000000000 = ''1700000000000''"
    by (simp add: String_nat.simps digit_char_def)
  from createNote_success [of mem_adapter stamp "\<lparr> rows = [], next_id = 7, online = True \<rparr>"
      "\<lparr> note_id = ''7'', title = ''Untitled Note'', content = [], created = stamp,
         updated = stamp \<rparr>"
      "\<lparr> rows = [\<lparr> note_id = ''7'', title = ''Untitled Note'', content = [], created = stamp,
                   updated = stamp \<rparr>],
         next_id = 8, online = True \<rparr>" empty_astore 1700000000000 empty_lstore]
  show ?thesis
    by (simp add: Let_def mem_adapter_def create_confirmed_def empty_astore_def empty_lstore_def
        createNote_local_def saveNotes_def s7 sn)
qed

subsection \<open>Distinct ids\<close>

text \<open>
  C1. In the local-storage variant the id of a new note is the decimal string of the clock
  reading, so two creations at the same reading of \<^verbatim>\<open>Date.now()\<close>, starting from the empty
  store, leave two notes with the same id in the list: the ids are not pairwise distinct.
  Deleting that id then removes both notes.
\<close>

theorem createNote_local_same_clock:
  "notes_list (run_local [Create_local 1700000000000, Create_local 1700000000000] empty_lstore)
     = [\<lparr> note_id = ''1700000000000'', title = ''Untitled Note'', content = [],
           created = 1700000000000, updated = 1700000000000 \<rparr>,
        \<lparr> note_id = ''1700000000000'', title = ''Untitled Note'', content = [],
           created = 1700000000000, updated = 1700000000000 \<rparr>]
   \<and> \<not> distinct (map note_id
         (notes_list (run_local [Create_local 1700000000000, Create_local 1700000000000]
            empty_lstore)))
   \<and> notes_list (run_local [Create_local 1700000000000, Create_local 1700000000000,
                            Delete_local True ''1700000000000''] empty_lstore) = []"
proof -
  have sn: "String_nat 1700000000000 = ''1700000000000''"
    by (simp add: String_nat.simps digit_char_def)
  show ?thesis
    by (simp add: createNote_local_def deleteNote_local_def saveNotes_def empty_lstore_def
        Let_def sn)
qed

text \<open>
  The ids stay pairwise distinct along every run in which each creation receives an id that
  is not in the list: deletions filter the list, and a creation adds one id.
\<close>

lemma createNote_local_distinct:
  "distinct (map note_id (notes_list s)) \<Longrightarrow>
   String_nat now \<notin> set (map note_id (notes_list s)) \<Longrightarrow>
   distinct (map note_id (notes_list (createNote_local now s)))"
  by (simp add: createNote_local_def saveNotes_def Let_def)

lemma deleteNote_local_distinct:
  "distinct (map note_id (notes_list s)) \<Longrightarrow>
   distinct (map note_id (notes_list (deleteNote_local confirmed i s)))"
  by (simp add: deleteNote_local_def saveNotes_def Let_def distinct_map_filter)

lemma run_local_distinct:
  "distinct (map note_id (notes_list s)) \<Longrightarrow> fresh_clock ops s \<Longrightarrow>
   distinct (map note_id (notes_list (run_local ops s)))"
proof (induction ops s rule: run_local.induct)
  case (1 s)
  then show ?case by simp
next
  case (2 now ops s)
  then show ?case by (simp add: createNote_local_distinct)
next
  case (3 confirmed i ops s)
  then show ?case by (simp add: deleteNote_local_distinct)
qed

lemma createNote_distinct:
  "distinct (map note_id (notes_list (fst sb))) \<Longrightarrow>
   (case fst (supabaseCreateNote adp
                \<lparr> nd_title = ''Untitled Note'', nd_content = [], nd_updated = now,
                  nd_created = now \<rparr>
                (snd sb)) of
      Inl e \<Rightarrow> True
    | Inr n \<Rightarrow> note_id n \<notin> set (map note_id (notes_list (fst sb)))) \<Longrightarrow>
   distinct (map note_id (notes_list (fst (createNote adp now sb))))"
  by (cases sb) (auto simp: Let_def split: prod.splits sum.splits)

lemma deleteNote_distinct:
  "distinct (map note_id (notes_list (fst sb))) \<Longrightarrow>
   distinct (map note_id (notes_list (fst (deleteNote adp confirmed i sb))))"
  by (cases sb) (auto simp: Let_def distinct_map_filter split: prod.splits sum.splits)

lemma run_distinct:
  "distinct (map note_id (notes_list (fst sb))) \<Longrightarrow> fresh_ids adp ops sb \<Longrightarrow>
   distinct (map note_id (notes_list (fst (run adp ops sb))))"
proof (induction adp ops sb rule: run.induct)
  case (1 adp sb)
  then show ?case by simp
next
  case (2 adp now ops sb)
  then show ?case using createNote_distinct [of sb adp now] by simp
next
  case (3 adp confirmed i ops sb)
  then show ?case using deleteNote_distinct [of sb adp confirmed i] by simp
qed

section \<open>Updating\<close>

lemma updateNote_notes:
  "supabaseUpdateNote adp i upd b = (Inr r, b') \<Longrightarrow>
   updateNote adp i upd (s, b)
     = (s\<lparr> notes_list := map (\<lambda>n. if note_id n = i then r else n) (notes_list s),
           loading := False, error := None \<rparr>, b')"
  by (simp add: spread_all_fields)

text \<open>
  C6, as the code has it. A successful update keeps the length and the order of the list and
  every note whose id is not the given one, and the selection, the editing flag and the search
  term are unchanged. In the adapter-backed variant a note with the given id becomes the
  record the adapter returned, with all its fields. In the local-storage variant, in a note
  with the given id every field other than \<^verbatim>\<open>updated\<close> has the supplied value where one is
  supplied and its old value otherwise, and \<^verbatim>\<open>updated\<close> becomes the reading of the clock for
  that note.
\<close>

theorem updateNote_frame:
  "(supabaseUpdateNote adp i upd b = (Inr r, b')
    \<longrightarrow> (let s' = fst (updateNote adp i upd (s, b)) in
           length (notes_list s') = length (notes_list s)
           \<and> (\<forall>k < length (notes_list s).
                 (note_id (notes_list s ! k) \<noteq> i \<longrightarrow> notes_list s' ! k = notes_list s ! k)
                 \<and> (note_id (notes_list s ! k) = i \<longrightarrow> notes_list s' ! k = r))
           \<and> selectedNoteId s' = selectedNoteId s \<and> editing s' = editing s
           \<and> searchTerm s' = searchTerm s))
   \<and> (let ls' = updateNote_local now i upd' ls in
         length (notes_list ls') = length (notes_list ls)
         \<and> (\<forall>k < length (notes_list ls).
               (note_id (notes_list ls ! k) \<noteq> i \<longrightarrow> notes_list ls' ! k = notes_list ls ! k)
               \<and> (note_id (notes_list ls ! k) = i
                    \<longrightarrow> only_supplied_changed (notes_list ls ! k) upd' (notes_list ls' ! k)
                        \<and> updated (notes_list ls' ! k) = now k))
         \<and> selectedNoteId ls' = selectedNoteId ls \<and> editing ls' = editing ls
         \<and> searchTerm ls' = searchTerm ls)"
proof -
  have loc: "only_supplied_changed n upd' ((spread n upd')\<lparr> updated := t \<rparr>)" for n t
    by (simp add: only_supplied_changed_def spread_def)
  show ?thesis
    by (auto simp: Let_def updateNote_local_def saveNotes_def spread_all_fields loc
        nth_enumerate_eq)
qed

text \<open>
  Renaming note A to ``Groceries'': the adapter returns the renamed row, which takes the
  place of note A; locally the title and the timestamp of note A change and nothing else.
\<close>

theorem updateNote_frame_witness:
  "supabaseUpdateNote mem_adapter ''1'' (title_only ''Groceries'') backend_AB
     = (Inr ((note_A stamp)\<lparr> title := ''Groceries'' \<rparr>),
        backend_AB\<lparr> rows := [(note_A stamp)\<lparr> title := ''Groceries'' \<rparr>, note_B stamp] \<rparr>)
   \<and> notes_list astore_AB = [note_A stamp, note_B stamp]
   \<and> note_id (note_A stamp) = ''1'' \<and> note_id (note_B stamp) \<noteq> ''1''
   \<and> notes_list (fst (updateNote mem_adapter ''1'' (title_only ''Groceries'')
                         (astore_AB, backend_AB)))
       = [(note_A stamp)\<lparr> title := ''Groceries'' \<rparr>, note_B stamp]
   \<and> notes_list (updateNote_local (\<lambda>k. 3000) ''1'' (title_only ''Groceries'') lstore_AB)
       = [(note_A 1000)\<lparr> title := ''Groceries'', updated := 3000 \<rparr>, note_B 2000]"
  using updateNote_frame [where adp = mem_adapter and i = "''1''"
      and upd = "title_only ''Groceries''" and b = backend_AB
      and r = "(note_A stamp)\<lparr> title := ''Groceries'' \<rparr>"
      and b' = "backend_AB\<lparr> rows := [(note_A stamp)\<lparr> title := ''Groceries'' \<rparr>,
                                      note_B stamp] \<rparr>"
      and s = astore_AB and now = "\<lambda>k. 3000" and upd' = "title_only ''Groceries''"
      and ls = lstore_AB]
  by (simp add: mem_adapter_def backend_AB_def astore_AB_def lstore_AB_def empty_astore_def
      empty_lstore_def note_A_def note_B_def title_only_def spread_def all_fields_def
      updateNote_local_def saveNotes_def Let_def)

text \<open>
  The row of note A has no creation time in the backend, and \<^verbatim>\<open>loadNotes\<close> has filled the
  creation time of the note in memory from its last update. The update \<^verbatim>\<open>{ title: 'Groceries' }\<close>
  of that note succeeds, supplies no creation time, and yet the creation time of the note in
  memory changes: it becomes the empty one of the row that the adapter returned.
\<close>

theorem updateNote_resets_created:
  "notes_list astore_loaded = [note_A stamp]
   \<and> created (note_A stamp) = stamp
   \<and> p_created (title_only ''Groceries'' :: string partial_note) = None
   \<and> supabaseUpdateNote mem_adapter ''1'' (title_only ''Groceries'') backend_no_created
       = (Inr ((note_A stamp)\<lparr> title := ''Groceries'', created := [] \<rparr>),
          backend_no_created\<lparr> rows := [(note_A stamp)\<lparr> title := ''Groceries'', created := [] \<rparr>] \<rparr>)
   \<and> error (fst (updateNote mem_adapter ''1'' (title_only ''Groceries'')
                    (astore_loaded, backend_no_created))) = None
   \<and> notes_list (fst (updateNote mem_adapter ''1'' (title_only ''Groceries'')
                         (astore_loaded, backend_no_created)))
       = [(note_A stamp)\<lparr> title := ''Groceries'', created := [] \<rparr>]
   \<and> created ((note_A stamp)\<lparr> title := ''Groceries'', created := [] \<rparr>) \<noteq> created (note_A stamp)
   \<and> \<not> only_supplied_changed (note_A stamp) (title_only ''Groceries'')
         ((note_A stamp)\<lparr> title := ''Groceries'', created := [] \<rparr>)"
  by (simp add: astore_loaded_def backend_no_created_def mem_adapter_def empty_astore_def
      note_A_def stamp_def title_only_def spread_def all_fields_def fill_created_def
      falsy_id_def only_supplied_changed_def Let_def)

lemma updateNote_twice_adapter:
  assumes u1: "supabaseUpdateNote adp i (title_only x) b = (Inr r, b')"
    and u2: "supabaseUpdateNote adp i (title_only x) b' = (Inr r', b'')"
    and c1: "update_confirmed (title_only x) r"
    and c2: "update_confirmed (title_only x) r'"
  shows "map title (notes_list (fst (updateNote adp i (title_only x)
                                      (updateNote adp i (title_only x) (s, b)))))
         = map title (notes_list (fst (updateNote adp i (title_only x) (s, b))))"
    and "\<forall>k < length (notes_list s). note_id (notes_list s ! k) = i
           \<longrightarrow> title (notes_list (fst (updateNote adp i (title_only x) (s, b))) ! k) = x
               \<and> title (notes_list (fst (updateNote adp i (title_only x)
                                           (updateNote adp i (title_only x) (s, b)))) ! k) = x"
proof -
  let ?f = "\<lambda>n. if note_id n = i then r else n"
  let ?g = "\<lambda>n. if note_id n = i then r' else n"
  have t: "title r = x" "title r' = x"
    using c1 c2 by (simp_all add: update_confirmed_title_only)
  have pt: "title (?g (?f n)) = title (?f n) \<and> (note_id n = i \<longrightarrow> title (?f n) = x)" for n
    using t by simp
  have e1: "notes_list (fst (updateNote adp i (title_only x) (s, b))) = map ?f (notes_list s)"
    unfolding updateNote_notes [OF u1] by simp
  have e2: "notes_list (fst (updateNote adp i (title_only x)
                              (updateNote adp i (title_only x) (s, b))))
            = map ?g (map ?f (notes_list s))"
    unfolding updateNote_notes [OF u1] updateNote_notes [OF u2] by simp
  show "map title (notes_list (fst (updateNote adp i (title_only x)
                                      (updateNote adp i (title_only x) (s, b)))))
         = map title (notes_list (fst (updateNote adp i (title_only x) (s, b))))"
    unfolding e1 e2 using pt by (simp add: comp_def)
  show "\<forall>k < length (notes_list s). note_id (notes_list s ! k) = i
           \<longrightarrow> title (notes_list (fst (updateNote adp i (title_only x) (s, b))) ! k) = x
               \<and> title (notes_list (fst (updateNote adp i (title_only x)
                                           (updateNote adp i (title_only x) (s, b)))) ! k) = x"
    unfolding e1 e2
  proof (intro allI impI)
    fix k assume k: "k < length (notes_list s)" and "note_id (notes_list s ! k) = i"
    with pt [of "notes_list s ! k"] show
      "title (map ?f (notes_list s) ! k) = x \<and> title (map ?g (map ?f (notes_list s)) ! k) = x"
      by simp
  qed
qed

lemma updateNote_twice_local:
  "map title (notes_list (updateNote_local now' i (title_only x)
                             (updateNote_local now i (title_only x) ls)))
     = map title (notes_list (updateNote_local now i (title_only x) ls))"
  "\<forall>k < length (notes_list ls). note_id (notes_list ls ! k) = i
     \<longrightarrow> title (notes_list (updateNote_local now i (title_only x) ls) ! k) = x
         \<and> title (notes_list (updateNote_local now' i (title_only x)
                                 (updateNote_local now i (title_only x) ls)) ! k) = x"
proof -
  let ?g = "\<lambda>t (k :: nat) n. if note_id n = i then (spread n (title_only x))\<lparr> updated := t k \<rparr> else n"
  let ?h = "\<lambda>n :: nat Note. if note_id n = i then x else title n"
  have n1: "notes_list (updateNote_local now i (title_only x) ls)
              = map (\<lambda>(k, n). ?g now k n) (enumerate 0 (notes_list ls))"
    by (simp add: updateNote_local_def saveNotes_def)
  have n2: "notes_list (updateNote_local now' i (title_only x)
                          (updateNote_local now i (title_only x) ls))
              = map (\<lambda>(k, n). ?g now' k n)
                  (enumerate 0 (map (\<lambda>(k, n). ?g now k n) (enumerate 0 (notes_list ls))))"
    by (simp add: updateNote_local_def saveNotes_def)
  have t1: "map title (map (\<lambda>(k, n). ?g t k n) (enumerate 0 xs)) = map ?h xs" for t xs
    by (rule map_enumerate_pointwise) (simp add: spread_title_only)
  have hh: "?h (?g t k n) = ?h n" for t k n
    by (simp add: spread_title_only)
  have t2: "map ?h (map (\<lambda>(k, n). ?g t k n) (enumerate 0 xs)) = map ?h xs" for t xs
    by (rule map_enumerate_pointwise) (rule hh)
  show a: "map title (notes_list (updateNote_local now' i (title_only x)
                             (updateNote_local now i (title_only x) ls)))
     = map title (notes_list (updateNote_local now i (title_only x) ls))"
    unfolding n1 n2 t1 t2 ..
  have l1: "map title (notes_list (updateNote_local now i (title_only x) ls))
              = map ?h (notes_list ls)"
    unfolding n1 t1 ..
  show "\<forall>k < length (notes_list ls). note_id (notes_list ls ! k) = i
     \<longrightarrow> title (notes_list (updateNote_local now i (title_only x) ls) ! k) = x
         \<and> title (notes_list (updateNote_local now' i (title_only x)
                                 (updateNote_local now i (title_only x) ls)) ! k) = x"
  proof (intro allI impI)
    fix k assume k: "k < length (notes_list ls)" and i: "note_id (notes_list ls ! k) = i"
    have len: "length (notes_list (updateNote_local now i (title_only x) ls))
                 = length (notes_list ls)"
      unfolding n1 by simp
    have len': "length (notes_list (updateNote_local now' i (title_only x)
                          (updateNote_local now i (title_only x) ls))) = length (notes_list ls)"
      unfolding n2 by simp
    have "title (notes_list (updateNote_local now i (title_only x) ls) ! k)
            = map title (notes_list (updateNote_local now i (title_only x) ls)) ! k"
      using k len by simp
    also have "\<dots> = x"
      unfolding l1 using k i by simp
    finally have one: "title (notes_list (updateNote_local now i (title_only x) ls) ! k) = x" .
    have "title (notes_list (updateNote_local now' i (title_only x)
                   (updateNote_local now i (title_only x) ls)) ! k)
            = map title (notes_list (updateNote_local now' i (title_only x)
                   (updateNote_local now i (title_only x) ls))) ! k"
      using k len' by simp
    also have "\<dots> = x"
      unfolding a l1 using k i by simp
    finally show "title (notes_list (updateNote_local now i (title_only x) ls) ! k) = x
         \<and> title (notes_list (updateNote_local now' i (title_only x)
                                 (updateNote_local now i (title_only x) ls)) ! k) = x"
      using one by simp
  qed
qed

text \<open>
  C9. Applying the update \<^verbatim>\<open>{ title: x }\<close> to the same id twice in succession leaves every
  title as it was after the first application, and the notes with that id have the title \<open>x\<close>
  after one application and after two, in every state. In the adapter-backed variant both
  calls succeed and each record the adapter returns carries the title it was given; in the
  local-storage variant the two applications may happen at different clock readings.
\<close>

theorem updateNote_title_twice:
  "(supabaseUpdateNote adp i (title_only x) b = (Inr r, b')
    \<and> supabaseUpdateNote adp i (title_only x) b' = (Inr r', b'')
    \<and> update_confirmed (title_only x) r
    \<and> update_confirmed (title_only x) r'
    \<longrightarrow> (let s1 = updateNote adp i (title_only x) (s, b);
             s2 = updateNote adp i (title_only x) s1 in
           map title (notes_list (fst s2)) = map title (notes_list (fst s1))
           \<and> (\<forall>k < length (notes_list s). note_id (notes_list s ! k) = i
                 \<longrightarrow> title (notes_list (fst s1) ! k) = x \<and> title (notes_list (fst s2) ! k) = x)))
   \<and> (let l1 = updateNote_local now i (title_only x) ls;
           l2 = updateNote_local now' i (title_only x) l1 in
         map title (notes_list l2) = map title (notes_list l1)
         \<and> (\<forall>k < length (notes_list ls). note_id (notes_list ls ! k) = i
               \<longrightarrow> title (notes_list l1 ! k) = x \<and> title (notes_list l2 ! k) = x))"
  (is "?A \<and> ?L")
proof -
  have "?L"
    by (simp add: Let_def updateNote_twice_local)
  moreover have "?A"
    unfolding Let_def
    apply (intro impI, elim conjE, intro conjI)
     apply (rule updateNote_twice_adapter(1); assumption)
    apply (rule updateNote_twice_adapter(2); assumption)
    done
  ultimately show ?thesis by blast
qed

theorem updateNote_title_twice_witness:
  "supabaseUpdateNote mem_adapter ''1'' (title_only ''Groceries'') backend_AB
     = (Inr ((note_A stamp)\<lparr> title := ''Groceries'' \<rparr>),
        backend_AB\<lparr> rows := [(note_A stamp)\<lparr> title := ''Groceries'' \<rparr>, note_B stamp] \<rparr>)
   \<and> supabaseUpdateNote mem_adapter ''1'' (title_only ''Groceries'')
        (backend_AB\<lparr> rows := [(note_A stamp)\<lparr> title := ''Groceries'' \<rparr>, note_B stamp] \<rparr>)
     = (Inr ((note_A stamp)\<lparr> title := ''Groceries'' \<rparr>),
        backend_AB\<lparr> rows := [(note_A stamp)\<lparr> title := ''Groceries'' \<rparr>, note_B stamp] \<rparr>)
   \<and> update_confirmed (title_only ''Groceries'') ((note_A stamp)\<lparr> title := ''Groceries'' \<rparr>)
   \<and> map title (notes_list (fst (updateNote mem_adapter ''1'' (title_only ''Groceries'')
         (updateNote mem_adapter ''1'' (title_only ''Groceries'') (astore_AB, backend_AB)))))
       = [''Groceries'', ''Ideas'']
   \<and> map title (notes_list (fst (updateNote mem_adapter ''1'' (title_only ''Groceries'')
         (astore_AB, backend_AB))))
       = [''Groceries'', ''Ideas'']
   \<and> map title (notes_list (updateNote_local (\<lambda>k. 4000) ''1'' (title_only ''Groceries'')
         (updateNote_local (\<lambda>k. 3000) ''1'' (title_only ''Groceries'') lstore_AB)))
       = [''Groceries'', ''Ideas'']
   \<and> map title (notes_list (updateNote_local (\<lambda>k. 3000) ''1'' (title_only ''Groceries'')
         lstore_AB))
       = [''Groceries'', ''Ideas'']"
  using updateNote_title_twice [where adp = mem_adapter and i = "''1''"
      and x = "''Groceries''" and b = backend_AB
      and r = "(note_A stamp)\<lparr> title := ''Groceries'' \<rparr>"
      and b' = "backend_AB\<lparr> rows := [(note_A stamp)\<lparr> title := ''Groceries'' \<rparr>,
                                      note_B stamp] \<rparr>"
      and r' = "(note_A stamp)\<lparr> title := ''Groceries'' \<rparr>"
      and b'' = "backend_AB\<lparr> rows := [(note_A stamp)\<lparr> title := ''Groceries'' \<rparr>,
                                       note_B stamp] \<rparr>"
      and s = astore_AB and now = "\<lambda>k. 3000" and now' = "\<lambda>k. 4000" and ls = lstore_AB]
  by (simp add: mem_adapter_def backend_AB_def astore_AB_def lstore_AB_def empty_astore_def
      empty_lstore_def note_A_def note_B_def title_only_def spread_def all_fields_def
      update_confirmed_def updateNote_local_def saveNotes_def Let_def)

section \<open>Loading\<close>

lemma map_fill_created_id:
  "(\<forall>n \<in> set data. created n \<noteq> []) \<Longrightarrow> map fill_created data = data"
  by (induction data) (simp_all add: fill_created_def)

lemma loadNotes_success:
  assumes "supabaseFetchNotes adp b = (Inr data, b')"
  shows "notes_list (fst (loadNotes adp (s, b))) = map fill_created data"
    and "selectedNoteId s = None \<Longrightarrow> selectedNoteId (fst (loadNotes adp (s, b))) = first_id data"
  using assms
  by (cases data; simp add: Let_def falsy_id_def first_id_def fill_created_def)+

text \<open>
  C7, as the code has it. In the adapter-backed variant a successful load replaces the list
  by the notes the adapter returned, in their order, each with an empty \<^verbatim>\<open>created\<close> filled
  from its \<^verbatim>\<open>updated\<close> (so the list is the returned one when no \<^verbatim>\<open>created\<close> is empty), and when
  nothing was selected it selects the first returned note, if there is one. In the
  local-storage variant the load replaces the list by the stored notes (none when nothing is
  stored) and leaves the selection as it was.
\<close>

theorem loadNotes_replaces:
  "(supabaseFetchNotes adp b = (Inr data, b')
    \<longrightarrow> (let s' = fst (loadNotes adp (s, b)) in
           notes_list s' = map fill_created data
           \<and> ((\<forall>n \<in> set data. created n \<noteq> []) \<longrightarrow> notes_list s' = data)
           \<and> (selectedNoteId s = None \<longrightarrow> selectedNoteId s' = first_id data)))
   \<and> (let ls' = loadNotes_local ls in
         notes_list ls' = (case stored ls of None \<Rightarrow> [] | Some ns \<Rightarrow> ns)
         \<and> selectedNoteId ls' = selectedNoteId ls)"
  (is "?A \<and> ?L")
proof -
  have "?L"
    by (simp add: Let_def loadNotes_local_def)
  moreover have "?A"
    unfolding Let_def
    by (intro impI conjI) (simp_all only: loadNotes_success map_fill_created_id)
  ultimately show ?thesis by blast
qed

theorem loadNotes_replaces_witness:
  "supabaseFetchNotes mem_adapter backend_AB = (Inr [note_A stamp, note_B stamp], backend_AB)
   \<and> created (note_A stamp) \<noteq> [] \<and> created (note_B stamp) \<noteq> []
   \<and> selectedNoteId empty_astore = None
   \<and> notes_list (fst (loadNotes mem_adapter (empty_astore, backend_AB)))
       = [note_A stamp, note_B stamp]
   \<and> selectedNoteId (fst (loadNotes mem_adapter (empty_astore, backend_AB))) = Some ''1''
   \<and> notes_list (loadNotes_local lstore_unloaded) = [note_A 1000, note_B 2000]
   \<and> selectedNoteId (loadNotes_local lstore_unloaded) = None"
  using loadNotes_replaces [where adp = mem_adapter and b = backend_AB
      and data = "[note_A stamp, note_B stamp]" and b' = backend_AB and s = empty_astore
      and ls = lstore_unloaded]
  by (simp add: mem_adapter_def backend_AB_def empty_astore_def lstore_unloaded_def
      empty_lstore_def note_A_def note_B_def stamp_def fill_created_def falsy_id_def
      first_id_def loadNotes_local_def Let_def)

text \<open>
  The local-storage variant selects nothing: with two stored notes and no selection, the load
  brings both notes into the list and the selection is still empty, not the id of the first
  note.
\<close>

theorem loadNotes_local_selects_nothing:
  "selectedNoteId lstore_unloaded = None
   \<and> notes_list (loadNotes_local lstore_unloaded) = [note_A 1000, note_B 2000]
   \<and> selectedNoteId (loadNotes_local lstore_unloaded) \<noteq> Some (note_id (note_A (1000::nat)))"
  by (simp add: lstore_unloaded_def empty_lstore_def loadNotes_local_def)

text \<open>
  A fetched note without a creation time gets the time of its last update.
\<close>

lemma loadNotes_fills_created:
  "notes_list (fst (loadNotes mem_adapter
      (empty_astore, \<lparr> rows = [(note_A stamp)\<lparr> created := [] \<rparr>], next_id = 2, online = True \<rparr>)))
   = [note_A stamp]"
  by (simp add: mem_adapter_def empty_astore_def note_A_def fill_created_def falsy_id_def)

end
